theory Spec2Isabelle
  imports Main "HOL-Library.Sublist" "HOL-Library.AList"
begin

section \<open>Python strings\<close>

text \<open>
  A Python \<open>str\<close> is a sequence of Unicode code points and \<open>len\<close> counts code points, so
  a string is modelled as a list of naturals (the code points), not as a list of bytes.
  \<open>lit\<close> turns an ASCII literal into such a string.

  The regular expressions and string methods of the three programs consult two tables of
  the Unicode database that are not part of the repository: which non-ASCII code points
  are alphanumeric (\<open>\w\<close>), and how \<open>str.lower\<close> maps a string with non-ASCII code points.
  Both are parameters of the model (\<open>unicode\<close>); on ASCII everything is written out.
\<close>

type_synonym codepoint = nat
type_synonym pystr = "codepoint list"

definition lit :: "string \<Rightarrow> pystr" where
  "lit s = map of_char s"

record unicode =
  uni_alnum :: "codepoint \<Rightarrow> bool"
  uni_lower :: "pystr \<Rightarrow> pystr"

text \<open>\<open>str.isspace\<close> per code point; the class \<open>\s\<close> of \<open>re\<close> on \<open>str\<close> patterns and the
  characters removed by \<open>str.strip()\<close> are this same set.\<close>

definition isspace :: "codepoint \<Rightarrow> bool" where
  "isspace c \<longleftrightarrow>
     (9 \<le> c \<and> c \<le> 13) \<or> (28 \<le> c \<and> c \<le> 32) \<or> c = 133 \<or> c = 160 \<or> c = 5760 \<or>
     (8192 \<le> c \<and> c \<le> 8202) \<or> c = 8232 \<or> c = 8233 \<or> c = 8239 \<or> c = 8287 \<or> c = 12288"

text \<open>The class \<open>\w\<close>: alphanumeric or underscore.\<close>

definition word_char :: "unicode \<Rightarrow> codepoint \<Rightarrow> bool" where
  "word_char U c \<longleftrightarrow>
     (if c < 128
      then (48 \<le> c \<and> c \<le> 57) \<or> (65 \<le> c \<and> c \<le> 90) \<or> (97 \<le> c \<and> c \<le> 122) \<or> c = 95
      else uni_alnum U c)"

text \<open>\<open>s.lower()\<close>: ASCII capitals shifted by 32 when the string is pure ASCII.\<close>

definition lower :: "unicode \<Rightarrow> pystr \<Rightarrow> pystr" where
  "lower U s =
     (if list_all (\<lambda>c. c < 128) s
      then map (\<lambda>c. if 65 \<le> c \<and> c \<le> 90 then c + 32 else c) s
      else uni_lower U s)"

text \<open>\<open>needle in hay\<close> on strings: \<open>needle\<close> occurs as a contiguous piece of \<open>hay\<close>.\<close>

fun contains :: "pystr \<Rightarrow> pystr \<Rightarrow> bool" where
  "contains needle [] \<longleftrightarrow> needle = []"
| "contains needle (h # hay) \<longleftrightarrow> prefix needle (h # hay) \<or> contains needle hay"

text \<open>\<open>s.strip()\<close> and \<open>s.strip(chars)\<close>.\<close>

definition strip :: "pystr \<Rightarrow> pystr" where
  "strip s = rev (dropWhile isspace (rev (dropWhile isspace s)))"


text \<open>\<open>s.split(sep)\<close> for a separator of one code point, and of two (\<open>'//'\<close>): the
  pieces between the leftmost non-overlapping occurrences, never an empty list.\<close>

fun split_on :: "codepoint \<Rightarrow> pystr \<Rightarrow> pystr list" where
  "split_on sep [] = [[]]"
| "split_on sep (c # cs) =
     (if c = sep then [] # split_on sep cs
      else (case split_on sep cs of
              [] \<Rightarrow> [[c]]
            | p # ps \<Rightarrow> (c # p) # ps))"

fun split_on2 :: "codepoint \<Rightarrow> codepoint \<Rightarrow> pystr \<Rightarrow> pystr list" where
  "split_on2 a b [] = [[]]"
| "split_on2 a b [c] = [[c]]"
| "split_on2 a b (c # d # cs) =
     (if c = a \<and> d = b then [] # split_on2 a b cs
      else (case split_on2 a b (d # cs) of
              [] \<Rightarrow> [[c]]
            | p # ps \<Rightarrow> (c # p) # ps))"

text \<open>\<open>sep.join(parts)\<close>.\<close>

fun join :: "pystr \<Rightarrow> pystr list \<Rightarrow> pystr" where
  "join sep [] = []"
| "join sep [x] = x"
| "join sep (x # y # ys) = x @ sep @ join sep (y # ys)"

text \<open>\<open>s.replace(old, new)\<close> for \<open>old\<close> of one code point.\<close>

definition replace :: "codepoint \<Rightarrow> pystr \<Rightarrow> pystr \<Rightarrow> pystr" where
  "replace old new s = concat (map (\<lambda>c. if c = old then new else [c]) s)"

section \<open>The boilerplate stripper\<close>

text \<open>
  \<^verbatim>\<open>re.sub(r'\s+', ' ', text)\<close>: every maximal run of whitespace becomes one space.
\<close>

function sub_ws_runs :: "pystr \<Rightarrow> pystr" where
  "sub_ws_runs [] = []"
| "sub_ws_runs (c # cs) =
     (if isspace c then 32 # sub_ws_runs (dropWhile isspace cs) else c # sub_ws_runs cs)"
  by pat_completeness auto
termination
  by (relation "measure length") (auto simp: less_Suc_eq_le length_dropWhile_le)

text \<open>
  \<^verbatim>\<open>re.sub(r'[^\w\s.,!?-]', '', text)\<close>: every code point outside the class is deleted.
\<close>

definition kept_char :: "unicode \<Rightarrow> codepoint \<Rightarrow> bool" where
  "kept_char U c \<longleftrightarrow>
     word_char U c \<or> isspace c \<or> c = 46 \<or> c = 44 \<or> c = 33 \<or> c = 63 \<or> c = 45"

definition sub_disallowed :: "unicode \<Rightarrow> pystr \<Rightarrow> pystr" where
  "sub_disallowed U text = filter (kept_char U) text"

text \<open>
  \<^verbatim>\<open>'\n'.join(line.strip() for line in text.split('\n') if line.strip())\<close>
\<close>

definition drop_blank_lines :: "pystr \<Rightarrow> pystr" where
  "drop_blank_lines text =
     join [10] (map strip (filter (\<lambda>line. strip line \<noteq> []) (split_on 10 text)))"

text \<open>\<open>clean_text\<close> of \<open>streamlit.py\<close>; \<open>streamlitV2.py\<close> and \<open>streamlitV3.py\<close> define the
  same function (and never call it).\<close>

definition clean_text :: "unicode \<Rightarrow> pystr \<Rightarrow> pystr" where
  "clean_text U text =
     (let text1 = sub_ws_runs text;
          text2 = sub_disallowed U text1;
          text3 = drop_blank_lines text2
      in strip text3)"


section \<open>Exceptions, the outside world, observable effects\<close>

text \<open>
  An exception is a value: its class, as far as an \<open>except\<close> clause of the programs tells
  classes apart, and \<open>str(e)\<close>. \<open>OtherException\<close> is any other subclass of \<open>Exception\<close>.
\<close>

datatype exn = RequestException pystr | ResourceExhausted pystr | OtherException pystr

fun exn_str :: "exn \<Rightarrow> pystr" where
  "exn_str (RequestException m) = m"
| "exn_str (ResourceExhausted m) = m"
| "exn_str (OtherException m) = m"

text \<open>What \<open>history.extracted_content()\<close> of the browser agent gives: a list of strings
  or one string.\<close>

datatype agent_result = Content_list "pystr list" | Content_str pystr

text \<open>A parsed page: text nodes and elements with a tag name, attributes and children.\<close>

datatype node = Text pystr | Element pystr "(pystr \<times> pystr) list" "node list"

text \<open>The two components of \<open>urlparse(u)\<close> that the programs read.\<close>

record parsed_url =
  netloc :: pystr
  path :: pystr

text \<open>
  The libraries and remote services, as functions that return a value or raise:
  \<^item> \<open>fetch_main_content url\<close>: lines 176 to 212 of \<open>streamlit.py\<close>, the HTTP fetch and the
    selection of the page's main text with BeautifulSoup;
  \<^item> \<open>generate_content prompt\<close>: the body of the \<open>try\<close> of \<open>clean_with_genai\<close> up to
    \<open>response.text\<close> (reading the API key, configuring, calling the endpoint);
  \<^item> \<open>agent_extracted_content url\<close>: creating and running the browser agent on \<open>url\<close>;
  \<^item> \<open>get_soup url\<close>: \<open>requests.get\<close>, \<open>raise_for_status\<close> and the BeautifulSoup parse of
    \<open>find_linked_pages\<close>;
  \<^item> \<open>urljoin\<close> and \<open>urlparse\<close> of \<open>urllib.parse\<close>.
\<close>

record world =
  fetch_main_content :: "pystr \<Rightarrow> exn + pystr"
  generate_content :: "pystr \<Rightarrow> exn + pystr"
  agent_extracted_content :: "pystr \<Rightarrow> exn + agent_result"
  get_soup :: "pystr \<Rightarrow> exn + node list"
  urljoin :: "pystr \<Rightarrow> pystr \<Rightarrow> exn + pystr"
  urlparse :: "pystr \<Rightarrow> exn + parsed_url"

text \<open>What a run leaves behind besides its result: each call of \<open>clean_with_genai\<close> with
  its argument, each \<open>st.warning\<close> and each \<open>print\<close>.\<close>

datatype event = Called_clean_with_genai pystr | St_warning pystr | Print pystr

section \<open>The remote cleanup call\<close>

definition prompt :: "pystr \<Rightarrow> pystr" where
  "prompt text =
     lit ''CLEANING TASK: Clean and format the following web content while:\<newline>'' @
     lit ''1. Removing navigation elements, headers, footers, and ads\<newline>'' @
     lit ''2. Preserving all meaningful content\<newline>'' @
     lit ''3. Maintaining proper paragraph structure\<newline>'' @
     lit ''4. Keeping important headings and subheadings\<newline>'' @
     lit ''5. Ensuring readability\<newline>\<newline>'' @
     lit ''CONTENT TO CLEAN:\<newline>'' @ text @ lit ''\<newline>\<newline>CLEANED OUTPUT:''"

text \<open>\<open>clean_with_genai\<close> of \<open>streamlit.py\<close> (the same in \<open>streamlitV2.py\<close>).\<close>

definition clean_with_genai :: "unicode \<Rightarrow> world \<Rightarrow> pystr \<Rightarrow> pystr \<times> event list" where
  "clean_with_genai U W text =
     (case generate_content W (prompt text) of
        Inr response_text \<Rightarrow>
          if contains (lit ''provide the actual scraped content'') (lower U response_text)
          then (lit ''CONTENT EXTRACTION ERROR: Failed to retrieve meaningful page content'',
                [Called_clean_with_genai text])
          else (response_text, [Called_clean_with_genai text])
      | Inl e \<Rightarrow> (lit ''CLEANING ERROR: '' @ exn_str e, [Called_clean_with_genai text]))"

text \<open>\<open>clean_with_genai\<close> of \<open>streamlitV3.py\<close>, with the clause for \<open>ResourceExhausted\<close>.\<close>

definition clean_with_genai_V3 :: "unicode \<Rightarrow> world \<Rightarrow> pystr \<Rightarrow> pystr \<times> event list" where
  "clean_with_genai_V3 U W text =
     (case generate_content W (prompt text) of
        Inr response_text \<Rightarrow>
          if contains (lit ''provide the actual scraped content'') (lower U response_text)
          then (lit ''CONTENT EXTRACTION ERROR: Failed to retrieve meaningful page content'',
                [Called_clean_with_genai text])
          else (response_text, [Called_clean_with_genai text])
      | Inl (ResourceExhausted error_message) \<Rightarrow>
          if contains (lit ''429'') error_message
             \<or> contains (lit ''Resource has been exhausted'') error_message
          then (lit ''CLEANING ERROR: API rate limit - please try again later.'',
                [Called_clean_with_genai text,
                 St_warning (lit ''Gemini API rate limit encountered during cleaning. Please wait a moment and try again. Error: '' @ error_message)])
          else (lit ''CLEANING ERROR: '' @ error_message, [Called_clean_with_genai text])
      | Inl e \<Rightarrow> (lit ''CLEANING ERROR: '' @ exn_str e, [Called_clean_with_genai text]))"

section \<open>The page pipeline\<close>








text \<open>The arguments of the calls of \<open>clean_with_genai\<close> among the events of a run.\<close>

fun cleanup_calls :: "event list \<Rightarrow> pystr list" where
  "cleanup_calls [] = []"
| "cleanup_calls (Called_clean_with_genai t # evs) = t # cleanup_calls evs"
| "cleanup_calls (ev # evs) = cleanup_calls evs"


section \<open>Link discovery\<close>

text \<open>
  BeautifulSoup's searches, in document order: \<open>descendants n\<close> are the nodes below \<open>n\<close>,
  \<open>soup_find_all name\<close> is \<open>soup.find_all(name)\<close>, \<open>soup_find name\<close> is \<open>soup.find(name)\<close> (the
  first one or \<open>None\<close>), \<open>get_text n\<close> is \<open>n.text\<close>.
\<close>

fun descendants :: "node \<Rightarrow> node list" where
  "descendants (Text t) = []"
| "descendants (Element tag attrs children) = concat (map (\<lambda>c. c # descendants c) children)"

fun has_tag :: "pystr \<Rightarrow> node \<Rightarrow> bool" where
  "has_tag name (Text t) \<longleftrightarrow> False"
| "has_tag name (Element tag attrs children) \<longleftrightarrow> tag = name"

definition soup_find_all :: "pystr \<Rightarrow> node list \<Rightarrow> node list" where
  "soup_find_all name soup = filter (has_tag name) (concat (map (\<lambda>c. c # descendants c) soup))"

definition soup_find :: "pystr \<Rightarrow> node list \<Rightarrow> node option" where
  "soup_find name soup = (case soup_find_all name soup of [] \<Rightarrow> None | n # _ \<Rightarrow> Some n)"

fun get_text :: "node \<Rightarrow> pystr" where
  "get_text (Text t) = t"
| "get_text (Element tag attrs children) = concat (map get_text children)"

text \<open>\<open>(a.get('href'), a.text.strip())\<close> when \<open>a\<close> is an \<open>a\<close> element with an \<open>href\<close>.\<close>

fun href_pair :: "node \<Rightarrow> (pystr \<times> pystr) option" where
  "href_pair (Text t) = None"
| "href_pair (Element tag attrs children) =
     (if tag = lit ''a''
      then map_option (\<lambda>h. (h, strip (get_text (Element tag attrs children))))
             (map_of attrs (lit ''href''))
      else None)"

text \<open>\<^verbatim>\<open>[(a.get('href'), a.text.strip()) for a in container.find_all('a', href=True)]\<close>\<close>

definition anchors_in :: "node \<Rightarrow> (pystr \<times> pystr) list" where
  "anchors_in container = List.map_filter href_pair (descendants container)"

text \<open>Lines 160 to 173 of \<open>streamlitV3.py\<close>: the candidate links.\<close>

definition collect_nav_links :: "node list \<Rightarrow> (pystr \<times> pystr) list" where
  "collect_nav_links soup =
     (let nav_tags = soup_find_all (lit ''nav'') soup;
          nav_links = concat (map anchors_in nav_tags)
      in if nav_links = []
         then (case soup_find (lit ''header'') soup of None \<Rightarrow> [] | Some header \<Rightarrow> anchors_in header)
              @ (case soup_find (lit ''footer'') soup of None \<Rightarrow> [] | Some footer \<Rightarrow> anchors_in footer)
         else nav_links)"

record link =
  item_url :: pystr
  item_text :: pystr

text \<open>The loop of lines 180 to 187; \<open>Inl\<close> when \<open>urljoin\<close> or \<open>urlparse\<close> raises.\<close>

fun link_loop ::
  "world \<Rightarrow> pystr \<Rightarrow> pystr \<Rightarrow> int \<Rightarrow> (pystr \<times> pystr) list \<Rightarrow> link list \<Rightarrow> exn + link list" where
  "link_loop W url base_domain max_pages [] processed_links = Inr processed_links"
| "link_loop W url base_domain max_pages ((link_url, link_text) # nav_links) processed_links =
     (case urljoin W url link_url of
        Inl e \<Rightarrow> Inl e
      | Inr absolute_url \<Rightarrow>
          (case urlparse W absolute_url of
             Inl e \<Rightarrow> Inl e
           | Inr parsed_link_url \<Rightarrow>
               if netloc parsed_link_url = base_domain
                  \<and> \<not> List.member (map item_url processed_links) absolute_url
               then (let processed_links' =
                           processed_links @ [\<lparr>item_url = absolute_url, item_text = link_text\<rparr>]
                     in if int (length processed_links') \<ge> max_pages
                        then Inr processed_links'
                        else link_loop W url base_domain max_pages nav_links processed_links')
               else link_loop W url base_domain max_pages nav_links processed_links))"

text \<open>Lines 160 to 189: from the parsed page to the returned list.\<close>

definition discover_links :: "world \<Rightarrow> pystr \<Rightarrow> int \<Rightarrow> node list \<Rightarrow> exn + link list" where
  "discover_links W url max_pages soup =
     (let nav_links = collect_nav_links soup in
      case urlparse W url of
        Inl e \<Rightarrow> Inl e
      | Inr base_url_parsed \<Rightarrow> link_loop W url (netloc base_url_parsed) max_pages nav_links [])"

text \<open>\<open>find_linked_pages\<close> of \<open>streamlitV3.py\<close>.\<close>

definition find_linked_pages :: "world \<Rightarrow> pystr \<Rightarrow> int \<Rightarrow> link list \<times> event list" where
  "find_linked_pages W url max_pages =
     (case (case get_soup W url of Inl e \<Rightarrow> Inl e | Inr soup \<Rightarrow> discover_links W url max_pages soup) of
        Inr processed_links \<Rightarrow> (processed_links, [])
      | Inl (RequestException m) \<Rightarrow>
          ([], [Print (lit ''Error fetching URL '' @ url @ lit '': '' @ m)])
      | Inl e \<Rightarrow>
          ([], [Print (lit ''Error finding linked pages with BeautifulSoup: '' @ exn_str e)]))"

section \<open>Pages and batches\<close>






section \<open>The exported file's name\<close>

text \<open>\<^verbatim>\<open>url.split('//')[-1].split('/')[0].replace('.', '_')\<close>; a split is never empty.\<close>

definition url_domain :: "pystr \<Rightarrow> pystr" where
  "url_domain url = (case split_on 47 (last (split_on2 47 47 url)) of [] \<Rightarrow> [] | d # _ \<Rightarrow> d)"

definition domain :: "pystr \<Rightarrow> pystr" where
  "domain url = replace 46 (lit ''_'') (url_domain url)"

text \<open>\<open>filename\<close> of \<open>streamlit.py\<close>, and of \<open>streamlitV3.py\<close> (the same in \<open>streamlitV2.py\<close>);
  \<open>timestamp\<close> is \<^verbatim>\<open>datetime.now().strftime("%Y%m%d_%H%M%S")\<close>.\<close>

definition filename :: "pystr \<Rightarrow> pystr \<Rightarrow> pystr" where
  "filename url timestamp = domain url @ lit ''_'' @ timestamp @ lit ''.txt''"

definition filename_V3 :: "pystr \<Rightarrow> pystr \<Rightarrow> pystr \<Rightarrow> pystr" where
  "filename_V3 url timestamp selected_page =
     domain url @ lit ''_'' @ timestamp @ lit ''_'' @ replace 32 (lit ''_'') selected_page @ lit ''.txt''"

section \<open>Concrete inputs\<close>

text \<open>Tables and a world to run the programs on ASCII examples: no non-ASCII code point
  counts as alphanumeric, URLs are joined by concatenation and parsed by cutting at the
  first slash after the scheme, which is what \<open>urllib.parse\<close> does on the URLs used below.\<close>

definition ascii_unicode :: unicode where
  "ascii_unicode = \<lparr>uni_alnum = (\<lambda>c. False), uni_lower = (\<lambda>s. s)\<rparr>"

definition example_urlparse :: "pystr \<Rightarrow> exn + parsed_url" where
  "example_urlparse u =
     (let rest = last (split_on2 47 47 u)
      in Inr \<lparr>netloc = takeWhile (\<lambda>c. c \<noteq> 47) rest, path = dropWhile (\<lambda>c. c \<noteq> 47) rest\<rparr>)"

definition example_world :: world where
  "example_world =
     \<lparr>fetch_main_content = (\<lambda>u. Inl (RequestException (lit ''Connection refused''))),
      generate_content = (\<lambda>p. Inr (lit ''Cleaned.'')),
      agent_extracted_content = (\<lambda>u. Inl (OtherException (lit ''net::ERR_NAME_NOT_RESOLVED''))),
      get_soup = (\<lambda>u. Inl (RequestException (lit ''Connection refused''))),
      urljoin = (\<lambda>base u. Inr (base @ u)),
      urlparse = example_urlparse\<rparr>"



definition asking_world :: world where
  "asking_world =
     example_world\<lparr>generate_content := (\<lambda>p. Inr (lit ''Please provide the actual scraped content.''))\<rparr>"

text \<open>A world in which the page at any URL parses to \<open>page\<close>.\<close>

definition page_world :: "node list \<Rightarrow> world" where
  "page_world page = example_world\<lparr>get_soup := (\<lambda>u. Inr page)\<rparr>"

text \<open>\<^verbatim>\<open><nav><a href="/about">About</a></nav>\<close> and
  \<^verbatim>\<open><nav></nav><header><a href="/about">About</a></header>\<close>\<close>

definition page_nav_link :: "node list" where
  "page_nav_link =
     [Element (lit ''nav'') []
        [Element (lit ''a'') [(lit ''href'', lit ''/about'')] [Text (lit ''About'')]]]"

definition page_empty_nav :: "node list" where
  "page_empty_nav =
     [Element (lit ''nav'') [] [],
      Element (lit ''header'') []
        [Element (lit ''a'') [(lit ''href'', lit ''/about'')] [Text (lit ''About'')]]]"

definition home_url :: pystr where
  "home_url = lit ''https://example.com''"

definition about_url :: pystr where
  "about_url = lit ''https://example.com/about''"

definition example_timestamp :: pystr where
  "example_timestamp = lit ''20250101_120000''"

section \<open>Notions used in the statements\<close>

text \<open>The failure that both \<open>except ResourceExhausted\<close> clauses of \<open>streamlitV3.py\<close> single
  out: the quota of the endpoint is exhausted.\<close>

definition rate_limit_exhausted :: "exn \<Rightarrow> bool" where
  "rate_limit_exhausted e =
     (case e of
        ResourceExhausted m \<Rightarrow>
          contains (lit ''429'') m \<or> contains (lit ''Resource has been exhausted'') m
      | _ \<Rightarrow> False)"







text \<open>\<open>a\<close> is an \<open>a\<close> element with an \<open>href\<close> below some \<open>nav\<close> element of the page.\<close>

definition nav_anchor :: "node list \<Rightarrow> node \<Rightarrow> bool" where
  "nav_anchor soup a \<longleftrightarrow>
     (\<exists>nav \<in> set (soup_find_all (lit ''nav'') soup).
        a \<in> set (descendants nav) \<and> href_pair a \<noteq> None)"

section \<open>Facts about strings\<close>

lemma isspace_newline: "isspace 10"
  by (simp add: isspace_def)

lemma set_strip: "set (strip s) \<subseteq> set s"
  unfolding strip_def
  by (metis set_dropWhileD set_rev subsetI)

lemma last_dropWhile_keep: "dropWhile P xs \<noteq> [] \<Longrightarrow> last (dropWhile P xs) = last xs"
  by (induction xs) (auto split: if_splits)

lemma dropWhile_no_lead:
  "dropWhile P (rev (dropWhile P (rev (dropWhile P s)))) = rev (dropWhile P (rev (dropWhile P s)))"
proof (cases "dropWhile P (rev (dropWhile P s)) = []")
  case True
  then have "rev (dropWhile P (rev (dropWhile P s))) = []" by (simp only: rev.simps)
  then show ?thesis by (simp only: dropWhile.simps)
next
  case False
  let ?a = "dropWhile P s"
  let ?b = "dropWhile P (rev ?a)"
  from False have a: "?a \<noteq> []" by (metis dropWhile.simps(1) rev.simps(1))
  have "hd (rev ?b) = last ?b" using False by (simp add: hd_rev)
  also have "\<dots> = last (rev ?a)" using False by (rule last_dropWhile_keep)
  also have "\<dots> = hd ?a" using a by (simp add: last_rev)
  finally have "hd (rev ?b) = hd ?a" .
  moreover have "\<not> P (hd ?a)" using a by (rule hd_dropWhile)
  ultimately have "\<not> P (hd (rev ?b))" by simp
  then show ?thesis by (simp add: dropWhile_eq_self_iff)
qed

lemma strip_strip: "strip (strip s) = strip s"
  unfolding strip_def by (simp add: dropWhile_no_lead)

lemma split_on_single: "sep \<notin> set s \<Longrightarrow> split_on sep s = [s]"
  by (induction s) auto




lemma split_on2_none: "\<not> contains [a, b] s \<Longrightarrow> split_on2 a b s = [s]"
  by (induction a b s rule: split_on2.induct) (auto split: list.splits)

lemma split_on_head: "split_on sep s = takeWhile (\<lambda>c. c \<noteq> sep) s # tl (split_on sep s)"
  by (induction s) (auto split: list.splits)

section \<open>The boilerplate stripper: results\<close>

lemma sub_ws_runs_space: "c \<in> set (sub_ws_runs s) \<Longrightarrow> isspace c \<Longrightarrow> c = 32"
  by (induction s rule: sub_ws_runs.induct) (auto split: if_splits)

lemma sub_ws_runs_no_newline: "10 \<notin> set (sub_ws_runs s)"
  using sub_ws_runs_space [of 10 s] isspace_newline by auto

lemma drop_blank_lines_single: "10 \<notin> set t \<Longrightarrow> drop_blank_lines t = strip t"
  by (simp add: drop_blank_lines_def split_on_single)

text \<open>
  C6. On the text \<^verbatim>\<open>"Hello,   World!!\n\n\nAds here$$$"\<close> the stripper \<open>clean_text\<close> gives
  exactly \<^verbatim>\<open>"Hello, World!! Ads here"\<close>, whatever the Unicode tables.
\<close>

theorem clean_text_example:
  "clean_text U (lit ''Hello,   World!!\<newline>\<newline>\<newline>Ads here$$$'') = lit ''Hello, World!! Ads here''"
  by (simp add: clean_text_def lit_def isspace_def sub_disallowed_def kept_char_def
        word_char_def strip_def drop_blank_lines_def)

text \<open>
  C9. The output of \<open>clean_text\<close> holds no newline. After the first two substitutions the
  text is one line (splitting it at newlines gives the text itself), and the result is
  the strip of that text: the step that drops blank lines changes nothing.
\<close>

theorem clean_text_single_line:
  "10 \<notin> set (clean_text U s)
   \<and> split_on 10 (sub_disallowed U (sub_ws_runs s)) = [sub_disallowed U (sub_ws_runs s)]
   \<and> clean_text U s = strip (sub_disallowed U (sub_ws_runs s))"
proof -
  let ?t = "sub_disallowed U (sub_ws_runs s)"
  have nl: "10 \<notin> set ?t"
    using sub_ws_runs_no_newline [of s] by (simp add: sub_disallowed_def)
  have eq: "clean_text U s = strip ?t"
    using nl by (simp add: clean_text_def drop_blank_lines_single strip_strip)
  have "10 \<notin> set (strip ?t)" using nl set_strip [of ?t] by blast
  with eq nl show ?thesis by (simp add: split_on_single)
qed

text \<open>
  C3. \<open>clean_text\<close> is not idempotent. On \<^verbatim>\<open>"a $ b"\<close> the whitespace runs are collapsed
  first and the dollar sign is deleted afterwards, which leaves two adjacent spaces:
  the result is \<^verbatim>\<open>"a  b"\<close>, and a second application gives \<^verbatim>\<open>"a b"\<close>.
\<close>

theorem clean_text_twice_differs:
  "clean_text U (lit ''a $ b'') = lit ''a  b''
   \<and> clean_text U (clean_text U (lit ''a $ b'')) = lit ''a b''
   \<and> clean_text U (clean_text U (lit ''a $ b'')) \<noteq> clean_text U (lit ''a $ b'')"
  by (simp add: clean_text_def lit_def isspace_def sub_disallowed_def kept_char_def
        word_char_def strip_def drop_blank_lines_def)

section \<open>The remote cleanup call: results\<close>

text \<open>
  C4, as the code has it. When the endpoint answers, \<open>clean_with_genai\<close> returns the answer
  verbatim unless its lower-cased text contains \<open>provide the actual scraped content\<close>; then
  it returns the fixed text \<open>CONTENT EXTRACTION ERROR: Failed to retrieve meaningful page
  content\<close>. When the call raises \<open>e\<close>, it returns \<open>CLEANING ERROR: \<close> followed by
  \<open>str(e)\<close>; in \<open>streamlitV3.py\<close> only, exhaustion of the rate limit gives the fixed text
  \<open>CLEANING ERROR: API rate limit - please try again later.\<close> instead. Every result of a
  failed call starts with \<open>CLEANING ERROR: \<close>.
\<close>

theorem clean_with_genai_result:
  "(generate_content W (prompt text) = Inr response_text \<longrightarrow>
      fst (clean_with_genai U W text) =
        (if contains (lit ''provide the actual scraped content'') (lower U response_text)
         then lit ''CONTENT EXTRACTION ERROR: Failed to retrieve meaningful page content''
         else response_text)
      \<and> fst (clean_with_genai_V3 U W text) = fst (clean_with_genai U W text))
   \<and> (generate_content W (prompt text) = Inl e \<longrightarrow>
      fst (clean_with_genai U W text) = lit ''CLEANING ERROR: '' @ exn_str e
      \<and> fst (clean_with_genai_V3 U W text) =
          (if rate_limit_exhausted e
           then lit ''CLEANING ERROR: API rate limit - please try again later.''
           else lit ''CLEANING ERROR: '' @ exn_str e)
      \<and> prefix (lit ''CLEANING ERROR: '') (fst (clean_with_genai U W text))
      \<and> prefix (lit ''CLEANING ERROR: '') (fst (clean_with_genai_V3 U W text)))"
proof -
  have p: "prefix (lit ''CLEANING ERROR: '') (lit ''CLEANING ERROR: API rate limit - please try again later.'')"
    by (simp add: lit_def)
  show ?thesis
    by (cases e) (auto simp: clean_with_genai_def clean_with_genai_V3_def rate_limit_exhausted_def p)
qed

text \<open>
  An instance: an answer \<open>Cleaned.\<close> is returned as it is, and a \<open>ResourceExhausted\<close> with
  the message \<open>429 Resource has been exhausted\<close> gives the rate-limit text.
\<close>

theorem clean_with_genai_result_witness:
  "fst (clean_with_genai ascii_unicode example_world (lit ''Some page text'')) = lit ''Cleaned.''
   \<and> fst (clean_with_genai_V3 ascii_unicode
        (example_world\<lparr>generate_content := (\<lambda>p. Inl (ResourceExhausted (lit ''429 Resource has been exhausted'')))\<rparr>)
        (lit ''Some page text''))
     = lit ''CLEANING ERROR: API rate limit - please try again later.''"
  using clean_with_genai_result [of example_world "lit ''Some page text''" "lit ''Cleaned.''" ascii_unicode]
    clean_with_genai_result [of "example_world\<lparr>generate_content := (\<lambda>p. Inl (ResourceExhausted (lit ''429 Resource has been exhausted'')))\<rparr>"
       "lit ''Some page text''" _ ascii_unicode "ResourceExhausted (lit ''429 Resource has been exhausted'')"]
  by (simp add: example_world_def lower_def lit_def rate_limit_exhausted_def)

text \<open>
  The claim C4 as stated fails on success: the answer
  \<open>Please provide the actual scraped content.\<close> is not returned verbatim.
\<close>

theorem response_not_verbatim:
  "generate_content asking_world (prompt (lit ''Some page text''))
     = Inr (lit ''Please provide the actual scraped content.'')
   \<and> fst (clean_with_genai ascii_unicode asking_world (lit ''Some page text''))
     = lit ''CONTENT EXTRACTION ERROR: Failed to retrieve meaningful page content''
   \<and> fst (clean_with_genai ascii_unicode asking_world (lit ''Some page text''))
     \<noteq> lit ''Please provide the actual scraped content.''"
  by (simp add: asking_world_def example_world_def clean_with_genai_def lower_def lit_def)

section \<open>The page pipeline: results\<close>

lemma cleanup_calls_clean_with_genai: "cleanup_calls (snd (clean_with_genai U W t)) = [t]"
  by (auto simp: clean_with_genai_def split: sum.splits)

lemma cleanup_calls_clean_with_genai_V3: "cleanup_calls (snd (clean_with_genai_V3 U W t)) = [t]"
  by (auto simp: clean_with_genai_V3_def split: sum.splits exn.splits)




section \<open>Pages and batches: results\<close>












section \<open>Link discovery: results\<close>










lemma set_map_filter: "set (List.map_filter f xs) = {y. \<exists>x \<in> set xs. f x = Some y}"
  by (induction xs) (auto simp: List.map_filter_simps split: option.splits)

lemma set_nav_pairs:
  "set (concat (map anchors_in (soup_find_all (lit ''nav'') soup)))
     = {p. \<exists>a. nav_anchor soup a \<and> href_pair a = Some p}"
  by (auto simp: anchors_in_def set_map_filter nav_anchor_def)

lemma nav_anchor_href: "nav_anchor soup a \<Longrightarrow> \<exists>p. href_pair a = Some p"
  by (auto simp: nav_anchor_def)

text \<open>
  C7, as the code has it. When some \<open>nav\<close> element of the page holds an \<open>a\<close> element with
  an \<open>href\<close>, the candidate links are exactly those of such anchors, and \<open>header\<close> and
  \<open>footer\<close> are not consulted. When no \<open>nav\<close> element holds one (be there \<open>nav\<close> elements
  or not), the candidates are the anchors of the first \<open>header\<close> followed by those of the
  first \<open>footer\<close>.
\<close>

theorem header_footer_fallback:
  "((\<exists>a. nav_anchor soup a) \<longrightarrow>
       set (collect_nav_links soup) = {p. \<exists>a. nav_anchor soup a \<and> href_pair a = Some p})
   \<and> (\<not> (\<exists>a. nav_anchor soup a) \<longrightarrow>
       collect_nav_links soup
         = (case soup_find (lit ''header'') soup of None \<Rightarrow> [] | Some header \<Rightarrow> anchors_in header)
           @ (case soup_find (lit ''footer'') soup of None \<Rightarrow> [] | Some footer \<Rightarrow> anchors_in footer))"
proof -
  let ?nav_links = "concat (map anchors_in (soup_find_all (lit ''nav'') soup))"
  have e: "?nav_links = [] \<longleftrightarrow> \<not> (\<exists>a. nav_anchor soup a)"
  proof -
    have "?nav_links = [] \<longleftrightarrow> set ?nav_links = {}" by simp
    also have "\<dots> \<longleftrightarrow> \<not> (\<exists>a. nav_anchor soup a)"
      unfolding set_nav_pairs using nav_anchor_href by blast
    finally show ?thesis .
  qed
  show ?thesis
  proof (cases "\<exists>a. nav_anchor soup a")
    case True
    with e have "?nav_links \<noteq> []" by blast
    then have "collect_nav_links soup = ?nav_links"
      by (simp add: collect_nav_links_def Let_def del: concat_eq_Nil_conv)
    with True show ?thesis by (simp only: set_nav_pairs) simp
  next
    case False
    with e have "?nav_links = []" by blast
    then have "collect_nav_links soup
         = (case soup_find (lit ''header'') soup of None \<Rightarrow> [] | Some header \<Rightarrow> anchors_in header)
           @ (case soup_find (lit ''footer'') soup of None \<Rightarrow> [] | Some footer \<Rightarrow> anchors_in footer)"
      by (simp add: collect_nav_links_def Let_def del: concat_eq_Nil_conv)
    with False show ?thesis by simp
  qed
qed

lemma page_nav_link_anchor:
  "nav_anchor page_nav_link (Element (lit ''a'') [(lit ''href'', lit ''/about'')] [Text (lit ''About'')])"
  by (simp add: nav_anchor_def page_nav_link_def soup_find_all_def lit_def)

lemma page_empty_nav_no_anchor: "\<not> (\<exists>a. nav_anchor page_empty_nav a)"
  by (simp add: nav_anchor_def page_empty_nav_def soup_find_all_def lit_def)

text \<open>
  Instances: a page with a link in its \<open>nav\<close>, and a page with an empty \<open>nav\<close> and a link
  in its \<open>header\<close>.
\<close>

theorem header_footer_fallback_witness:
  "(\<exists>a. nav_anchor page_nav_link a)
   \<and> set (collect_nav_links page_nav_link)
       = {p. \<exists>a. nav_anchor page_nav_link a \<and> href_pair a = Some p}
   \<and> \<not> (\<exists>a. nav_anchor page_empty_nav a)
   \<and> collect_nav_links page_empty_nav = [(lit ''/about'', lit ''About'')]"
  using header_footer_fallback [of page_nav_link] header_footer_fallback [of page_empty_nav]
    page_nav_link_anchor page_empty_nav_no_anchor
  by (auto simp: page_empty_nav_def soup_find_def soup_find_all_def anchors_in_def
        List.map_filter_simps strip_def isspace_def lit_def)

text \<open>
  The claim C7 as stated fails on a page that contains a \<open>nav\<close> element without
  anchors: the anchor of its \<open>header\<close> is used.
\<close>

theorem header_used_despite_nav:
  "soup_find_all (lit ''nav'') page_empty_nav = [Element (lit ''nav'') [] []]
   \<and> collect_nav_links page_empty_nav = [(lit ''/about'', lit ''About'')]
   \<and> fst (find_linked_pages (page_world page_empty_nav) home_url 5)
       = [\<lparr>item_url = about_url, item_text = lit ''About''\<rparr>]"
  by (simp add: find_linked_pages_def discover_links_def collect_nav_links_def soup_find_all_def
        soup_find_def anchors_in_def List.map_filter_simps page_world_def example_world_def
        example_urlparse_def page_empty_nav_def home_url_def about_url_def strip_def isspace_def lit_def)







section \<open>The exported file's name: results\<close>

lemma url_domain_https:
  assumes "\<not> contains (lit ''//'') rest"
  shows "url_domain (lit ''https://'' @ rest) = takeWhile (\<lambda>c. c \<noteq> 47) rest"
    and "url_domain (lit ''http://'' @ rest) = takeWhile (\<lambda>c. c \<noteq> 47) rest"
proof -
  have n: "split_on2 47 47 rest = [rest]"
    using assms by (simp add: split_on2_none lit_def)
  have h: "(case split_on 47 rest of [] \<Rightarrow> [] | d # _ \<Rightarrow> d) = takeWhile (\<lambda>c. c \<noteq> 47) rest"
    by (subst split_on_head) simp
  have "last (split_on2 47 47 (lit ''https://'' @ rest)) = rest"
    by (simp add: lit_def n)
  then show "url_domain (lit ''https://'' @ rest) = takeWhile (\<lambda>c. c \<noteq> 47) rest"
    by (simp add: url_domain_def h)
  have "last (split_on2 47 47 (lit ''http://'' @ rest)) = rest"
    by (simp add: lit_def n)
  then show "url_domain (lit ''http://'' @ rest) = takeWhile (\<lambda>c. c \<noteq> 47) rest"
    by (simp add: url_domain_def h)
qed

text \<open>
  C8, as the code has it. For a URL \<open>https://rest\<close> or \<open>http://rest\<close> with no further
  \<open>//\<close>, the file name is the part of \<open>rest\<close> before its first slash with every dot
  replaced by an underscore, then an underscore, the timestamp, in \<open>streamlitV3.py\<close> an
  underscore and the selected page's label with every space replaced by an underscore,
  and \<open>.txt\<close>.
\<close>

theorem filename_pattern:
  assumes "\<not> contains (lit ''//'') rest"
    and "url = lit ''https://'' @ rest \<or> url = lit ''http://'' @ rest"
  shows "filename url timestamp
           = replace 46 (lit ''_'') (takeWhile (\<lambda>c. c \<noteq> 47) rest) @ lit ''_'' @ timestamp @ lit ''.txt''
     \<and> filename_V3 url timestamp selected_page
           = replace 46 (lit ''_'') (takeWhile (\<lambda>c. c \<noteq> 47) rest) @ lit ''_'' @ timestamp
             @ lit ''_'' @ replace 32 (lit ''_'') selected_page @ lit ''.txt''
     \<and> \<not> List.member (replace 46 (lit ''_'') (takeWhile (\<lambda>c. c \<noteq> 47) rest)) 46
     \<and> \<not> List.member (replace 32 (lit ''_'') selected_page) 32"
proof -
  have d: "url_domain url = takeWhile (\<lambda>c. c \<noteq> 47) rest"
    using assms url_domain_https by blast
  have r: "\<not> List.member (replace c (lit ''_'') s) c" if "c \<noteq> 95" for c s
    using that by (induction s) (auto simp: replace_def lit_def)
  show ?thesis
    using d r [of 46] r [of 32] by (simp add: filename_def filename_V3_def domain_def)
qed

text \<open>
  An instance: \<open>https://example.com/docs\<close> and the label \<open>About Us\<close>.
\<close>

theorem filename_pattern_witness:
  "\<not> contains (lit ''//'') (lit ''example.com/docs'')
   \<and> filename (lit ''https://example.com/docs'') example_timestamp
       = lit ''example_com_20250101_120000.txt''
   \<and> filename_V3 (lit ''https://example.com/docs'') example_timestamp (lit ''About Us'')
       = lit ''example_com_20250101_120000_About_Us.txt''"
  using filename_pattern [of "lit ''example.com/docs''" "lit ''https://example.com/docs''"
      example_timestamp "lit ''About Us''"]
  by (simp add: lit_def replace_def example_timestamp_def)

text \<open>
  The claim C8 as stated fails: the file name does not start with the domain
  \<open>example.com\<close> of the URL, and does not hold the label \<open>About Us\<close> as it is.
\<close>

theorem filename_not_plain_domain:
  "url_domain home_url = lit ''example.com''
   \<and> filename home_url example_timestamp = lit ''example_com_20250101_120000.txt''
   \<and> filename home_url example_timestamp \<noteq> lit ''example.com_20250101_120000.txt''
   \<and> filename_V3 home_url example_timestamp (lit ''About Us'')
       = lit ''example_com_20250101_120000_About_Us.txt''
   \<and> filename_V3 home_url example_timestamp (lit ''About Us'')
       \<noteq> lit ''example.com_20250101_120000_About Us.txt''
   \<and> filename_V3 home_url example_timestamp (lit ''About Us'')
       \<noteq> lit ''example.com_20250101_120000.txt''"
  by (simp add: filename_def filename_V3_def domain_def url_domain_def replace_def home_url_def
        example_timestamp_def lit_def)

end
